theory Spec2Isabelle
  imports Main "HOL-Library.Word"
begin

unbundle bit_operations_syntax

section \<open>Capability sets: \<open>CapType\<close>\<close>

text \<open>
  \<^verbatim>\<open>type CapType uint\<close>. Go's \<open>uint\<close> is taken at its 64-bit width. The constants are
  \<^verbatim>\<open>1 << iota\<close> for \<open>iota = 0, 1, 2, 3\<close>; \<open>CAPS\<close> and \<open>BOUNDS\<close> are built from them
  with bitwise or.
\<close>

type_synonym CapType = "64 word"

definition EFFECTIVE :: CapType where
  "EFFECTIVE = push_bit 0 1"

definition PERMITTED :: CapType where
  "PERMITTED = push_bit 1 1"

definition INHERITABLE :: CapType where
  "INHERITABLE = push_bit 2 1"

definition BOUNDING :: CapType where
  "BOUNDING = push_bit 3 1"

definition CAPS :: CapType where
  "CAPS = EFFECTIVE OR PERMITTED OR INHERITABLE"

definition BOUNDS :: CapType where
  "BOUNDS = BOUNDING"

text \<open>\<^verbatim>\<open>func (c CapType) String() string\<close>: the first matching case of the switch.\<close>

definition CapType_String :: "CapType \<Rightarrow> string" where
  "CapType_String c =
     (if c = EFFECTIVE then ''effective''
      else if c = PERMITTED then ''permitted''
      else if c = INHERITABLE then ''inheritable''
      else if c = BOUNDING then ''bounding''
      else if c = CAPS then ''caps''
      else ''unknown'')"

section \<open>Capability ids: \<open>Cap\<close>\<close>

text \<open>
  \<^verbatim>\<open>type Cap int\<close>. A \<open>Cap\<close> is modelled as a mathematical integer; the only place
  where the width of Go's \<open>int\<close> matters is the parser below, which rejects what does
  not fit 64 bits.
\<close>

type_synonym Cap = int

definition CAP_CHOWN :: Cap where "CAP_CHOWN = 0"
definition CAP_DAC_OVERRIDE :: Cap where "CAP_DAC_OVERRIDE = 1"
definition CAP_DAC_READ_SEARCH :: Cap where "CAP_DAC_READ_SEARCH = 2"
definition CAP_FOWNER :: Cap where "CAP_FOWNER = 3"
definition CAP_FSETID :: Cap where "CAP_FSETID = 4"
definition CAP_KILL :: Cap where "CAP_KILL = 5"
definition CAP_SETGID :: Cap where "CAP_SETGID = 6"
definition CAP_SETUID :: Cap where "CAP_SETUID = 7"
definition CAP_SETPCAP :: Cap where "CAP_SETPCAP = 8"
definition CAP_LINUX_IMMUTABLE :: Cap where "CAP_LINUX_IMMUTABLE = 9"
definition CAP_NET_BIND_SERVICE :: Cap where "CAP_NET_BIND_SERVICE = 10"
definition CAP_NET_BROADCAST :: Cap where "CAP_NET_BROADCAST = 11"
definition CAP_NET_ADMIN :: Cap where "CAP_NET_ADMIN = 12"
definition CAP_NET_RAW :: Cap where "CAP_NET_RAW = 13"
definition CAP_IPC_LOCK :: Cap where "CAP_IPC_LOCK = 14"
definition CAP_IPC_OWNER :: Cap where "CAP_IPC_OWNER = 15"
definition CAP_SYS_MODULE :: Cap where "CAP_SYS_MODULE = 16"
definition CAP_SYS_RAWIO :: Cap where "CAP_SYS_RAWIO = 17"
definition CAP_SYS_CHROOT :: Cap where "CAP_SYS_CHROOT = 18"
definition CAP_SYS_PTRACE :: Cap where "CAP_SYS_PTRACE = 19"
definition CAP_SYS_PACCT :: Cap where "CAP_SYS_PACCT = 20"
definition CAP_SYS_ADMIN :: Cap where "CAP_SYS_ADMIN = 21"
definition CAP_SYS_BOOT :: Cap where "CAP_SYS_BOOT = 22"
definition CAP_SYS_NICE :: Cap where "CAP_SYS_NICE = 23"
definition CAP_SYS_RESOURCE :: Cap where "CAP_SYS_RESOURCE = 24"
definition CAP_SYS_TIME :: Cap where "CAP_SYS_TIME = 25"
definition CAP_SYS_TTY_CONFIG :: Cap where "CAP_SYS_TTY_CONFIG = 26"
definition CAP_MKNOD :: Cap where "CAP_MKNOD = 27"
definition CAP_LEASE :: Cap where "CAP_LEASE = 28"
definition CAP_AUDIT_WRITE :: Cap where "CAP_AUDIT_WRITE = 29"
definition CAP_AUDIT_CONTROL :: Cap where "CAP_AUDIT_CONTROL = 30"
definition CAP_SETFCAP :: Cap where "CAP_SETFCAP = 31"
definition CAP_MAC_OVERRIDE :: Cap where "CAP_MAC_OVERRIDE = 32"
definition CAP_MAC_ADMIN :: Cap where "CAP_MAC_ADMIN = 33"
definition CAP_SYSLOG :: Cap where "CAP_SYSLOG = 34"
definition CAP_WAKE_ALARM :: Cap where "CAP_WAKE_ALARM = 35"
definition CAP_BLOCK_SUSPEND :: Cap where "CAP_BLOCK_SUSPEND = 36"
definition CAP_AUDIT_READ :: Cap where "CAP_AUDIT_READ = 37"

text \<open>\<^verbatim>\<open>func (c Cap) String() string\<close>: the switch, case by case, in the source's order.\<close>

definition Cap_String :: "Cap \<Rightarrow> string" where
  "Cap_String c =
     (if c = CAP_CHOWN then ''chown''
      else if c = CAP_DAC_OVERRIDE then ''dac_override''
      else if c = CAP_DAC_READ_SEARCH then ''dac_read_search''
      else if c = CAP_FOWNER then ''fowner''
      else if c = CAP_FSETID then ''fsetid''
      else if c = CAP_KILL then ''kill''
      else if c = CAP_SETGID then ''setgid''
      else if c = CAP_SETUID then ''setuid''
      else if c = CAP_SETPCAP then ''setpcap''
      else if c = CAP_LINUX_IMMUTABLE then ''linux_immutable''
      else if c = CAP_NET_BIND_SERVICE then ''net_bind_service''
      else if c = CAP_NET_BROADCAST then ''net_broadcast''
      else if c = CAP_NET_ADMIN then ''net_admin''
      else if c = CAP_NET_RAW then ''net_raw''
      else if c = CAP_IPC_LOCK then ''ipc_lock''
      else if c = CAP_IPC_OWNER then ''ipc_owner''
      else if c = CAP_SYS_MODULE then ''sys_module''
      else if c = CAP_SYS_RAWIO then ''sys_rawio''
      else if c = CAP_SYS_CHROOT then ''sys_chroot''
      else if c = CAP_SYS_PTRACE then ''sys_ptrace''
      else if c = CAP_SYS_PACCT then ''sys_psacct''
      else if c = CAP_SYS_ADMIN then ''sys_admin''
      else if c = CAP_SYS_BOOT then ''sys_boot''
      else if c = CAP_SYS_NICE then ''sys_nice''
      else if c = CAP_SYS_RESOURCE then ''sys_resource''
      else if c = CAP_SYS_TIME then ''sys_time''
      else if c = CAP_SYS_TTY_CONFIG then ''sys_tty_config''
      else if c = CAP_MKNOD then ''mknod''
      else if c = CAP_LEASE then ''lease''
      else if c = CAP_AUDIT_WRITE then ''audit_write''
      else if c = CAP_AUDIT_CONTROL then ''audit_control''
      else if c = CAP_SETFCAP then ''setfcap''
      else if c = CAP_MAC_OVERRIDE then ''mac_override''
      else if c = CAP_MAC_ADMIN then ''mac_admin''
      else if c = CAP_SYSLOG then ''syslog''
      else if c = CAP_WAKE_ALARM then ''wake_alarm''
      else if c = CAP_BLOCK_SUSPEND then ''block_suspend''
      else if c = CAP_AUDIT_READ then ''audit_read''
      else ''unknown'')"

text \<open>
  The constant block of the source as a table: each identifier with the id it is
  declared with, in the source's order.
\<close>

definition Cap_consts :: "(string \<times> Cap) list" where
  "Cap_consts =
     [(''CAP_CHOWN'', CAP_CHOWN),
      (''CAP_DAC_OVERRIDE'', CAP_DAC_OVERRIDE),
      (''CAP_DAC_READ_SEARCH'', CAP_DAC_READ_SEARCH),
      (''CAP_FOWNER'', CAP_FOWNER),
      (''CAP_FSETID'', CAP_FSETID),
      (''CAP_KILL'', CAP_KILL),
      (''CAP_SETGID'', CAP_SETGID),
      (''CAP_SETUID'', CAP_SETUID),
      (''CAP_SETPCAP'', CAP_SETPCAP),
      (''CAP_LINUX_IMMUTABLE'', CAP_LINUX_IMMUTABLE),
      (''CAP_NET_BIND_SERVICE'', CAP_NET_BIND_SERVICE),
      (''CAP_NET_BROADCAST'', CAP_NET_BROADCAST),
      (''CAP_NET_ADMIN'', CAP_NET_ADMIN),
      (''CAP_NET_RAW'', CAP_NET_RAW),
      (''CAP_IPC_LOCK'', CAP_IPC_LOCK),
      (''CAP_IPC_OWNER'', CAP_IPC_OWNER),
      (''CAP_SYS_MODULE'', CAP_SYS_MODULE),
      (''CAP_SYS_RAWIO'', CAP_SYS_RAWIO),
      (''CAP_SYS_CHROOT'', CAP_SYS_CHROOT),
      (''CAP_SYS_PTRACE'', CAP_SYS_PTRACE),
      (''CAP_SYS_PACCT'', CAP_SYS_PACCT),
      (''CAP_SYS_ADMIN'', CAP_SYS_ADMIN),
      (''CAP_SYS_BOOT'', CAP_SYS_BOOT),
      (''CAP_SYS_NICE'', CAP_SYS_NICE),
      (''CAP_SYS_RESOURCE'', CAP_SYS_RESOURCE),
      (''CAP_SYS_TIME'', CAP_SYS_TIME),
      (''CAP_SYS_TTY_CONFIG'', CAP_SYS_TTY_CONFIG),
      (''CAP_MKNOD'', CAP_MKNOD),
      (''CAP_LEASE'', CAP_LEASE),
      (''CAP_AUDIT_WRITE'', CAP_AUDIT_WRITE),
      (''CAP_AUDIT_CONTROL'', CAP_AUDIT_CONTROL),
      (''CAP_SETFCAP'', CAP_SETFCAP),
      (''CAP_MAC_OVERRIDE'', CAP_MAC_OVERRIDE),
      (''CAP_MAC_ADMIN'', CAP_MAC_ADMIN),
      (''CAP_SYSLOG'', CAP_SYSLOG),
      (''CAP_WAKE_ALARM'', CAP_WAKE_ALARM),
      (''CAP_BLOCK_SUSPEND'', CAP_BLOCK_SUSPEND),
      (''CAP_AUDIT_READ'', CAP_AUDIT_READ)]"

text \<open>
  The canonical lowercase identifier of a capability, as the description of the registry
  has it, read as: the identifier the capability is declared under in the constant
  block, without the \<open>CAP_\<close> prefix, in lower case (the form of the Linux capability
  names). It is the reference the name lookup is compared with, not a part of the
  program.
\<close>

definition toLower :: "char \<Rightarrow> char" where
  "toLower c =
     (if (65::nat) \<le> of_char c \<and> of_char c \<le> (90::nat)
      then char_of (of_char c + (32::nat)) else c)"

definition canonical_name :: "Cap \<Rightarrow> string option" where
  "canonical_name c =
     map_option (\<lambda>ident. map toLower (drop 4 ident))
       (map_of (map (\<lambda>(ident, v). (v, ident)) Cap_consts) c)"

section \<open>Reading the last capability\<close>

text \<open>
  The errors \<open>getLastCap\<close> can return: the one of \<^verbatim>\<open>ioutil.ReadFile\<close> and the two of
  \<^verbatim>\<open>strconv.Atoi\<close> (\<open>strconv.ErrSyntax\<close>, \<open>strconv.ErrRange\<close>).
\<close>

datatype error = ErrReadFile | ErrSyntax | ErrRange

subsection \<open>\<open>strings.TrimSpace\<close>\<close>

text \<open>
  Go strings are byte sequences, here \<open>char list\<close>. \<^verbatim>\<open>strings.TrimSpace\<close> removes the
  leading and the trailing white space, as Unicode defines it (\<^verbatim>\<open>unicode.IsSpace\<close>):
  the ASCII characters tab, newline, vertical tab, form feed, carriage return and
  space, and in UTF-8 the code points U+0085 and U+00A0 (two bytes), U+1680,
  U+2000 to U+200A, U+2028, U+2029, U+202F, U+205F and U+3000 (three bytes).
  A byte that does not start one of these encodings is not white space.
\<close>

definition isSpace1 :: "char \<Rightarrow> bool" where
  "isSpace1 a \<longleftrightarrow>
     a = CHR 0x09 \<or> a = CHR 0x0A \<or> a = CHR 0x0B \<or> a = CHR 0x0C \<or> a = CHR 0x0D \<or> a = CHR 0x20"

definition isSpace2 :: "char \<Rightarrow> char \<Rightarrow> bool" where
  "isSpace2 a b \<longleftrightarrow> a = CHR 0xC2 \<and> (b = CHR 0x85 \<or> b = CHR 0xA0)"

definition isSpace3 :: "char \<Rightarrow> char \<Rightarrow> char \<Rightarrow> bool" where
  "isSpace3 a b c \<longleftrightarrow>
     a = CHR 0xE1 \<and> b = CHR 0x9A \<and> c = CHR 0x80
     \<or> a = CHR 0xE2 \<and> b = CHR 0x80 \<and>
         ((0x80::nat) \<le> of_char c \<and> of_char c \<le> (0x8A::nat)
          \<or> c = CHR 0xA8 \<or> c = CHR 0xA9 \<or> c = CHR 0xAF)
     \<or> a = CHR 0xE2 \<and> b = CHR 0x81 \<and> c = CHR 0x9F
     \<or> a = CHR 0xE3 \<and> b = CHR 0x80 \<and> c = CHR 0x80"

text \<open>Leading white space: drop encoded white-space runes while there is one in front.\<close>

fun TrimLeft :: "string \<Rightarrow> string" where
  "TrimLeft (a # b # c # s) =
     (if isSpace1 a then TrimLeft (b # c # s)
      else if isSpace2 a b then TrimLeft (c # s)
      else if isSpace3 a b c then TrimLeft s
      else a # b # c # s)"
| "TrimLeft [a, b] =
     (if isSpace1 a then TrimLeft [b]
      else if isSpace2 a b then []
      else [a, b])"
| "TrimLeft [a] = (if isSpace1 a then [] else [a])"
| "TrimLeft [] = []"

text \<open>
  Trailing white space, on the reversed string: the last rune is decoded backwards from
  the end, so the bytes of an encoding arrive last byte first.
\<close>

fun TrimRightRev :: "string \<Rightarrow> string" where
  "TrimRightRev (c # b # a # s) =
     (if isSpace1 c then TrimRightRev (b # a # s)
      else if isSpace2 b c then TrimRightRev (a # s)
      else if isSpace3 a b c then TrimRightRev s
      else c # b # a # s)"
| "TrimRightRev [c, b] =
     (if isSpace1 c then TrimRightRev [b]
      else if isSpace2 b c then []
      else [c, b])"
| "TrimRightRev [c] = (if isSpace1 c then [] else [c])"
| "TrimRightRev [] = []"

definition TrimRight :: "string \<Rightarrow> string" where
  "TrimRight s = rev (TrimRightRev (rev s))"

definition TrimSpace :: "string \<Rightarrow> string" where
  "TrimSpace s = TrimRight (TrimLeft s)"

subsection \<open>\<open>strconv.Atoi\<close>\<close>

text \<open>
  \<^verbatim>\<open>strconv.Atoi(s)\<close> is \<^verbatim>\<open>ParseInt(s, 10, 0)\<close> converted to \<open>int\<close>, with \<open>int\<close> 64 bits
  wide. \<open>ParseUint\<close> reads the digits from the left into an unsigned 64-bit
  accumulator: a byte that is not a decimal digit is a syntax error, an accumulator
  that would pass \<open>2^64 - 1\<close> is a range error, whichever comes first.
\<close>

definition isDigit :: "char \<Rightarrow> bool" where
  "isDigit c \<longleftrightarrow> (48::nat) \<le> of_char c \<and> of_char c \<le> (57::nat)"

definition digitVal :: "char \<Rightarrow> nat" where
  "digitVal c = of_char c - 48"

definition maxUint64 :: nat where
  "maxUint64 = 2 ^ 64 - 1"

fun parseDigits :: "nat \<Rightarrow> string \<Rightarrow> error + nat" where
  "parseDigits n [] = Inr n"
| "parseDigits n (c # cs) =
     (if \<not> isDigit c then Inl ErrSyntax
      else if n \<ge> maxUint64 div 10 + 1 then Inl ErrRange
      else let n1 = n * 10 + digitVal c
           in if n1 > maxUint64 then Inl ErrRange else parseDigits n1 cs)"

definition ParseUint :: "string \<Rightarrow> error + nat" where
  "ParseUint s = (if s = [] then Inl ErrSyntax else parseDigits 0 s)"

text \<open>
  \<open>ParseInt\<close>: an optional sign, then \<open>ParseUint\<close>; the magnitude must fit the signed
  64-bit range, one more being allowed below zero than above.
\<close>

definition ParseInt :: "string \<Rightarrow> error + int" where
  "ParseInt s =
     (case s of
        [] \<Rightarrow> Inl ErrSyntax
      | c # cs \<Rightarrow>
          let neg = (c = CHR ''-'');
              s1 = (if c = CHR ''+'' \<or> c = CHR ''-'' then cs else s)
          in case ParseUint s1 of
               Inl err \<Rightarrow> Inl err
             | Inr un \<Rightarrow>
                 if \<not> neg \<and> un \<ge> 2 ^ 63 then Inl ErrRange
                 else if neg \<and> un > 2 ^ 63 then Inl ErrRange
                 else Inr (if neg then - int un else int un))"

definition Atoi :: "string \<Rightarrow> error + int" where
  "Atoi s = ParseInt s"

subsection \<open>\<open>getLastCap\<close>\<close>

text \<open>
  \<^verbatim>\<open>func getLastCap() (Cap, error)\<close>. The argument is what
  \<^verbatim>\<open>ioutil.ReadFile("/proc/sys/kernel/cap_last_cap")\<close> returned: an error or the bytes
  of the file. Each \<^verbatim>\<open>return 0, err\<close> is an \<open>Inl\<close>.
\<close>

definition getLastCap :: "error + string \<Rightarrow> error + Cap" where
  "getLastCap file =
     (case file of
        Inl err \<Rightarrow> Inl err
      | Inr str \<Rightarrow>
          (case Atoi (TrimSpace str) of
             Inl err \<Rightarrow> Inl err
           | Inr val \<Rightarrow> Inr val))"

section \<open>The package variables and \<open>init\<close>\<close>

text \<open>
  \<^verbatim>\<open>var ( CAP_LAST_CAP = Cap(63); capUpperMask = ^uint32(0) )\<close>: the two package
  variables, and the values they are declared with.
\<close>

record package_vars =
  CAP_LAST_CAP :: Cap
  capUpperMask :: "32 word"

definition declared_vars :: package_vars where
  "declared_vars = \<lparr>CAP_LAST_CAP = 63, capUpperMask = NOT 0\<rparr>"

text \<open>
  \<^verbatim>\<open>func init()\<close>. It returns nothing and has no error path of its own: when
  \<open>getLastCap\<close> fails, the body of the \<open>if\<close> is skipped. \<^verbatim>\<open>uint(lastCap) - 31\<close> is
  computed on 64-bit words; a shift of a \<open>uint32\<close> by 32 or more gives 0, in Go as
  with \<open>push_bit\<close>.
\<close>

definition init :: "error + string \<Rightarrow> package_vars \<Rightarrow> package_vars" where
  "init file g =
     (case getLastCap file of
        Inr lastCap \<Rightarrow>
          g\<lparr>CAP_LAST_CAP := lastCap,
            capUpperMask :=
              (if lastCap > 31
               then push_bit (unat ((word_of_int lastCap :: 64 word) - 31)) (1 :: 32 word) - 1
               else 0)\<rparr>
      | Inl err \<Rightarrow> g)"

text \<open>The decimal rendering of a number, as the kernel writes it to the file.\<close>

fun decimal :: "nat \<Rightarrow> string" where
  "decimal n =
     (if n < 10 then [char_of (48 + n)]
      else decimal (n div 10) @ [char_of (48 + n mod 10)])"


section \<open>The in-memory capability state\<close>

text \<open>
  Modelled from the spec: the capability word, "two unsigned 32-bit integers per set
  (low = bits 0-31, high = bits 32-63)". The file that declares the state and its
  accessors \<open>Get\<close>, \<open>Set\<close> and \<open>Unset\<close> is not among the sources.
\<close>

record CapabilityWord =
  low :: "32 word"
  high :: "32 word"

text \<open>
  Modelled from the spec: the capability state, which "owns four CapabilityWord pairs
  (one per base CapType)". The process id and the protocol version it also holds play
  no part in \<open>Get\<close>, \<open>Set\<close> and \<open>Unset\<close>.
\<close>

record CapabilityState =
  effective :: CapabilityWord
  permitted :: CapabilityWord
  inheritable :: CapabilityWord
  bounding :: CapabilityWord

text \<open>
  Modelled from the spec: the bit of a capability id in a word, ids being integers
  0..63: bit \<open>i\<close> of the low word for \<open>i \<le> 31\<close>, bit \<open>i - 32\<close> of the high word above.
  The spec gives no meaning to other ids; here they address no bit.
\<close>

definition testBit :: "Cap \<Rightarrow> CapabilityWord \<Rightarrow> bool" where
  "testBit i w =
     (if 0 \<le> i \<and> i \<le> 31 then bit (low w) (nat i)
      else if 32 \<le> i \<and> i \<le> 63 then bit (high w) (nat (i - 32))
      else False)"

text \<open>Modelled from the spec: "bit set", on the same addressing (the accessors are missing from the sources).\<close>

definition setBit :: "Cap \<Rightarrow> CapabilityWord \<Rightarrow> CapabilityWord" where
  "setBit i w =
     (if 0 \<le> i \<and> i \<le> 31 then w\<lparr>low := low w OR push_bit (nat i) 1\<rparr>
      else if 32 \<le> i \<and> i \<le> 63 then w\<lparr>high := high w OR push_bit (nat (i - 32)) 1\<rparr>
      else w)"

text \<open>Modelled from the spec: "bit clear", on the same addressing (the accessors are missing from the sources).\<close>

definition clearBit :: "Cap \<Rightarrow> CapabilityWord \<Rightarrow> CapabilityWord" where
  "clearBit i w =
     (if 0 \<le> i \<and> i \<le> 31 then w\<lparr>low := low w AND NOT (push_bit (nat i) 1)\<rparr>
      else if 32 \<le> i \<and> i \<le> 63 then w\<lparr>high := high w AND NOT (push_bit (nat (i - 32)) 1)\<rparr>
      else w)"

text \<open>
  Modelled from the spec: a word operation applied "across every base set named by the
  selector"; a base set is named when its bit is in the selector (\<open>Set\<close> and \<open>Unset\<close>
  are missing from the sources).
\<close>

definition onNamed ::
  "CapType \<Rightarrow> (CapabilityWord \<Rightarrow> CapabilityWord) \<Rightarrow> CapabilityState \<Rightarrow> CapabilityState" where
  "onNamed which f st =
     st\<lparr>effective := (if which AND EFFECTIVE \<noteq> 0 then f (effective st) else effective st),
        permitted := (if which AND PERMITTED \<noteq> 0 then f (permitted st) else permitted st),
        inheritable := (if which AND INHERITABLE \<noteq> 0 then f (inheritable st) else inheritable st),
        bounding := (if which AND BOUNDING \<noteq> 0 then f (bounding st) else bounding st)\<rparr>"

text \<open>
  Modelled from the spec: \<open>Set(selector, ids...)\<close>, "pure in-memory bit set across every
  base set named by the selector", one id after the other (missing from the sources).
\<close>

definition Set_caps :: "CapType \<Rightarrow> Cap list \<Rightarrow> CapabilityState \<Rightarrow> CapabilityState" where
  "Set_caps which caps st = fold (\<lambda>what. onNamed which (setBit what)) caps st"

text \<open>
  Modelled from the spec: \<open>Unset(selector, ids...)\<close>, "pure in-memory bit clear across
  every base set named by the selector" (missing from the sources).
\<close>

definition Unset_caps :: "CapType \<Rightarrow> Cap list \<Rightarrow> CapabilityState \<Rightarrow> CapabilityState" where
  "Unset_caps which caps st = fold (\<lambda>what. onNamed which (clearBit what)) caps st"

text \<open>
  Modelled from the spec: \<open>Get(selector, id)\<close>, "pure in-memory bit test" of the one set
  the selector stands for, "never silently OR multiple sets together": a selector that
  is not a single base set tests nothing (missing from the sources).
\<close>

definition Get_cap :: "CapType \<Rightarrow> Cap \<Rightarrow> CapabilityState \<Rightarrow> bool" where
  "Get_cap which what st =
     (if which = EFFECTIVE then testBit what (effective st)
      else if which = PERMITTED then testBit what (permitted st)
      else if which = INHERITABLE then testBit what (inheritable st)
      else if which = BOUNDING then testBit what (bounding st)
      else False)"


section \<open>Auxiliary facts\<close>

lemmas Cap_defs =
  CAP_CHOWN_def CAP_DAC_OVERRIDE_def CAP_DAC_READ_SEARCH_def CAP_FOWNER_def
  CAP_FSETID_def CAP_KILL_def CAP_SETGID_def CAP_SETUID_def CAP_SETPCAP_def
  CAP_LINUX_IMMUTABLE_def CAP_NET_BIND_SERVICE_def CAP_NET_BROADCAST_def
  CAP_NET_ADMIN_def CAP_NET_RAW_def CAP_IPC_LOCK_def CAP_IPC_OWNER_def
  CAP_SYS_MODULE_def CAP_SYS_RAWIO_def CAP_SYS_CHROOT_def CAP_SYS_PTRACE_def
  CAP_SYS_PACCT_def CAP_SYS_ADMIN_def CAP_SYS_BOOT_def CAP_SYS_NICE_def
  CAP_SYS_RESOURCE_def CAP_SYS_TIME_def CAP_SYS_TTY_CONFIG_def CAP_MKNOD_def
  CAP_LEASE_def CAP_AUDIT_WRITE_def CAP_AUDIT_CONTROL_def CAP_SETFCAP_def
  CAP_MAC_OVERRIDE_def CAP_MAC_ADMIN_def CAP_SYSLOG_def CAP_WAKE_ALARM_def
  CAP_BLOCK_SUSPEND_def CAP_AUDIT_READ_def

lemmas CapType_defs =
  EFFECTIVE_def PERMITTED_def INHERITABLE_def BOUNDING_def CAPS_def BOUNDS_def

lemma Cap_String_outside: "c < 0 \<or> 37 < c \<Longrightarrow> Cap_String c = ''unknown''"
  by (auto simp add: Cap_String_def Cap_defs)

lemma ParseInt_range:
  "ParseInt s = Inr v \<Longrightarrow> - (2 ^ 63) \<le> v \<and> v < 2 ^ 63"
  by (auto simp add: ParseInt_def Let_def split: list.splits sum.splits if_splits)

lemma ParseInt_sign:
  "ParseInt s = Inr v \<Longrightarrow> v < 0 \<Longrightarrow> take 1 s = ''-''"
  by (auto simp add: ParseInt_def Let_def split: list.splits sum.splits if_splits)

lemma getLastCap_Inr:
  "getLastCap file = Inr v \<Longrightarrow> \<exists>str. file = Inr str \<and> Atoi (TrimSpace str) = Inr v"
  by (auto simp add: getLastCap_def split: sum.splits)

lemma getLastCap_range:
  "getLastCap file = Inr v \<Longrightarrow> - (2 ^ 63) \<le> v \<and> v < 2 ^ 63"
  using ParseInt_range getLastCap_Inr unfolding Atoi_def by blast

lemma uint_sub31:
  assumes "31 < L" "L < 2 ^ 63"
  shows "unat ((word_of_int L :: 64 word) - 31) = nat (L - 31)"
proof -
  have le: "(2::int) ^ 63 \<le> 2 ^ 64"
    by (rule power_increasing) simp_all
  have lo: "0 \<le> L - 31" using assms(1) by arith
  have hi: "L - 31 < 2 ^ 64" using assms(2) le by arith
  have tb: "take_bit 64 (L - 31) = L - 31"
    using lo hi by (rule take_bit_int_eq_self)
  have "(word_of_int L :: 64 word) - 31 = word_of_int (L - 31)" by simp
  then have "unat ((word_of_int L :: 64 word) - 31) = nat (take_bit 64 (L - 31))"
    by (simp only: unat_eq_nat_uint uint_word_of_int_eq len_bit0 len_num1 mult_numeral_left_semiring_numeral) simp
  with tb show ?thesis by (simp only:)
qed

lemma testBit_clear_set: "testBit i (clearBit i (setBit i w)) = False"
  by (simp add: testBit_def clearBit_def setBit_def bit_simps)


text \<open>Decimal texts: what the digit loop, the trimming and \<open>Atoi\<close> make of them.\<close>

declare decimal.simps [simp del]

lemma digit_char: "d < 10 \<Longrightarrow> isDigit (char_of (48 + d)) \<and> digitVal (char_of (48 + d)) = d"
  by (simp add: isDigit_def digitVal_def)

lemma decimal_digits: "decimal n \<noteq> [] \<and> (\<forall>c \<in> set (decimal n). isDigit c)"
proof (induction n rule: decimal.induct)
  case (1 n)
  show ?case
  proof (cases "n < 10")
    case True
    then show ?thesis
      using digit_char [of n] by (subst decimal.simps, subst (2) decimal.simps) simp
  next
    case False
    have "n mod 10 < 10" by simp
    then have "isDigit (char_of (48 + n mod 10))" using digit_char by blast
    with False 1 show ?thesis
      by (subst decimal.simps, subst (2) decimal.simps) simp
  qed
qed

lemma parseDigits_snoc:
  "parseDigits a (xs @ [c]) =
     (case parseDigits a xs of Inl e \<Rightarrow> Inl e | Inr m \<Rightarrow> parseDigits m [c])"
  by (induction xs arbitrary: a) (simp_all add: Let_def)

lemma parseDigits_digit:
  assumes "d < 10" "m * 10 + d \<le> maxUint64"
  shows "parseDigits m [char_of (48 + d)] = Inr (m * 10 + d)"
proof -
  have "m < maxUint64 div 10 + 1" using assms by arith
  then show ?thesis using assms digit_char [of d] by (simp add: Let_def)
qed

lemma parseDigits_decimal:
  "n \<le> maxUint64 \<Longrightarrow> parseDigits 0 (decimal n) = Inr n"
proof (induction n rule: decimal.induct)
  case (1 n)
  show ?case
  proof (cases "n < 10")
    case True
    then have "decimal n = [char_of (48 + n)]" by (subst decimal.simps) simp
    moreover have "parseDigits 0 [char_of (48 + n)] = Inr (0 * 10 + n)"
      using True 1(2) by (intro parseDigits_digit) simp_all
    ultimately show ?thesis by simp
  next
    case False
    then have d: "decimal n = decimal (n div 10) @ [char_of (48 + n mod 10)]"
      by (subst decimal.simps) simp
    have "n div 10 \<le> maxUint64" using 1(2) by arith
    with 1(1) False have ih: "parseDigits 0 (decimal (n div 10)) = Inr (n div 10)" by simp
    have "parseDigits (n div 10) [char_of (48 + n mod 10)] = Inr (n div 10 * 10 + n mod 10)"
      using 1(2) by (intro parseDigits_digit) simp_all
    then show ?thesis by (simp add: d parseDigits_snoc ih)
  qed
qed


lemma isDigit_bytes:
  "isDigit c \<Longrightarrow> \<not> isSpace1 c \<and> \<not> isSpace2 c b \<and> \<not> isSpace2 b c
     \<and> \<not> isSpace3 c a b \<and> \<not> isSpace3 a b c \<and> c \<noteq> CHR ''+'' \<and> c \<noteq> CHR ''-''"
  by (auto simp add: isDigit_def isSpace1_def isSpace2_def isSpace3_def)

lemma TrimLeft_space: "isSpace1 a \<Longrightarrow> TrimLeft (a # s) = TrimLeft s"
proof (cases s)
  case Nil
  then show ?thesis if "isSpace1 a" using that by simp
next
  case (Cons b t)
  then show ?thesis if "isSpace1 a" using that by (cases t) simp_all
qed

lemma TrimLeft_spaces: "\<forall>c \<in> set ws. isSpace1 c \<Longrightarrow> TrimLeft (ws @ s) = TrimLeft s"
  by (induction ws) (simp_all add: TrimLeft_space)

lemma TrimLeft_digit: "isDigit a \<Longrightarrow> TrimLeft (a # s) = a # s"
proof (cases s)
  case Nil
  then show ?thesis if "isDigit a" using that isDigit_bytes [of a] by simp
next
  case (Cons b t)
  then show ?thesis if "isDigit a" using that isDigit_bytes [of a] by (cases t) simp_all
qed

lemma TrimRightRev_space: "isSpace1 a \<Longrightarrow> TrimRightRev (a # s) = TrimRightRev s"
proof (cases s)
  case Nil
  then show ?thesis if "isSpace1 a" using that by simp
next
  case (Cons b t)
  then show ?thesis if "isSpace1 a" using that by (cases t) simp_all
qed

lemma TrimRightRev_spaces: "\<forall>c \<in> set ws. isSpace1 c \<Longrightarrow> TrimRightRev (ws @ s) = TrimRightRev s"
  by (induction ws) (simp_all add: TrimRightRev_space)

lemma TrimRightRev_digit: "isDigit a \<Longrightarrow> TrimRightRev (a # s) = a # s"
proof (cases s)
  case Nil
  then show ?thesis if "isDigit a" using that isDigit_bytes [of a] by simp
next
  case (Cons b t)
  then show ?thesis if "isDigit a" using that isDigit_bytes [of a] by (cases t) simp_all
qed

lemma TrimSpace_digits:
  assumes d: "d \<noteq> []" "\<forall>c \<in> set d. isDigit c"
    and ws: "\<forall>c \<in> set ws1. isSpace1 c" "\<forall>c \<in> set ws2. isSpace1 c"
  shows "TrimSpace (ws1 @ d @ ws2) = d"
proof -
  obtain a t where dt: "d = a # t" using d(1) by (cases d) auto
  then have "isDigit a" using d(2) by simp
  then have left: "TrimLeft (ws1 @ d @ ws2) = d @ ws2"
    using ws(1) by (simp add: TrimLeft_spaces dt TrimLeft_digit)
  obtain z u where du: "rev d = z # u" using d(1) by (cases "rev d") auto
  then have "z \<in> set d" by (metis list.set_intros(1) set_rev)
  then have "isDigit z" using d(2) by blast
  then have "TrimRightRev (rev ws2 @ rev d) = rev d"
    using ws(2) by (simp add: TrimRightRev_spaces du TrimRightRev_digit)
  then show ?thesis by (simp add: TrimSpace_def TrimRight_def left)
qed

lemma Atoi_decimal:
  assumes "n < 2 ^ 63"
  shows "Atoi (decimal n) = Inr (int n)"
proof -
  obtain a t where dt: "decimal n = a # t" using decimal_digits [of n] by (cases "decimal n") auto
  then have a: "isDigit a" using decimal_digits [of n] by simp
  have "(2::nat) ^ 63 \<le> 2 ^ 64 - 1" by simp
  then have "n \<le> maxUint64" using assms by (simp add: maxUint64_def)
  then have "parseDigits 0 (a # t) = Inr n" using parseDigits_decimal dt by metis
  then have "ParseUint (a # t) = Inr n" by (simp only: ParseUint_def) simp
  then show ?thesis
    using assms isDigit_bytes [OF a] by (simp add: Atoi_def ParseInt_def dt)
qed

lemma Atoi_untrimmed:
  assumes "n < 2 ^ 63"
  shows "Atoi (decimal n @ [CHR 0x0A]) = Inl ErrSyntax"
proof -
  obtain a t where dt: "decimal n = a # t" using decimal_digits [of n] by (cases "decimal n") auto
  then have a: "isDigit a" using decimal_digits [of n] by simp
  have "(2::nat) ^ 63 \<le> 2 ^ 64 - 1" by simp
  then have "n \<le> maxUint64" using assms by (simp add: maxUint64_def)
  then have "parseDigits 0 (decimal n) = Inr n" by (rule parseDigits_decimal)
  moreover have "parseDigits n [CHR 0x0A] = Inl ErrSyntax" by (simp add: isDigit_def)
  ultimately have "parseDigits 0 ((a # t) @ [CHR 0x0A]) = Inl ErrSyntax"
    by (simp only: parseDigits_snoc dt [symmetric]) simp
  then have "ParseUint ((a # t) @ [CHR 0x0A]) = Inl ErrSyntax" by (simp only: ParseUint_def) simp
  then show ?thesis
    using isDigit_bytes [OF a] by (simp add: Atoi_def ParseInt_def dt)
qed

lemma getLastCap_decimal:
  assumes "n < 2 ^ 63" "\<forall>c \<in> set ws1. isSpace1 c" "\<forall>c \<in> set ws2. isSpace1 c"
  shows "getLastCap (Inr (ws1 @ decimal n @ ws2)) = Inr (int n)"
  using assms decimal_digits [of n] by (simp add: getLastCap_def TrimSpace_digits Atoi_decimal)

text \<open>The two paths of \<open>init\<close>, and \<open>getLastCap\<close> on a few concrete texts.\<close>

lemma init_failure_id: "getLastCap file = Inl err \<Longrightarrow> init file g = g"
  by (simp add: init_def)

lemma init_success:
  "getLastCap file = Inr L \<Longrightarrow>
   init file g = g\<lparr>CAP_LAST_CAP := L,
     capUpperMask := (if 31 < L then 2 ^ nat (L - 31) - 1 else 0)\<rparr>"
  by (frule getLastCap_range) (simp add: init_def uint_sub31 push_bit_eq_mult)

lemma unat_mask32: "unat (2 ^ k - 1 :: 32 word) = (2 ^ k - 1) mod 2 ^ 32"
proof -
  have "(2 ^ k - 1 :: 32 word) = of_nat (2 ^ k - 1)" by (simp add: of_nat_diff)
  then show ?thesis by (simp only: unat_of_nat) simp
qed

lemma getLastCap_63: "getLastCap (Inr ''63'') = Inr 63"
  by (simp add: getLastCap_def TrimSpace_def TrimRight_def isSpace1_def isSpace2_def
      isSpace3_def Atoi_def ParseInt_def ParseUint_def isDigit_def digitVal_def maxUint64_def)

lemma getLastCap_40: "getLastCap (Inr (''40'' @ [CHR 0x0A])) = Inr 40"
  by (simp add: getLastCap_def TrimSpace_def TrimRight_def isSpace1_def isSpace2_def
      isSpace3_def Atoi_def ParseInt_def ParseUint_def isDigit_def digitVal_def maxUint64_def)

lemma getLastCap_abc: "getLastCap (Inr ''abc'') = Inl ErrSyntax"
  by (simp add: getLastCap_def TrimSpace_def TrimRight_def isSpace1_def isSpace2_def
      isSpace3_def Atoi_def ParseInt_def ParseUint_def isDigit_def digitVal_def maxUint64_def)

lemma getLastCap_minus1: "getLastCap (Inr (''-1'' @ [CHR 0x0A])) = Inr (- 1)"
  by (simp add: getLastCap_def TrimSpace_def TrimRight_def isSpace1_def isSpace2_def
      isSpace3_def Atoi_def ParseInt_def ParseUint_def isDigit_def digitVal_def maxUint64_def)

lemma init_63: "init (Inr ''63'') declared_vars = declared_vars"
  by (simp add: init_success [OF getLastCap_63] declared_vars_def)

text \<open>
  The name table against the identifiers: every capability of the constant block but
  \<open>CAP_SYS_PACCT\<close> is named by its identifier without \<open>CAP_\<close>, in lower case, and
  the ids of the block are 0 to 37.
\<close>

lemma Cap_consts_names:
  "list_all (\<lambda>(ident, v). v = CAP_SYS_PACCT \<or> map toLower (drop 4 ident) = Cap_String v)
     Cap_consts"
  by (simp add: Cap_consts_def Cap_String_def Cap_defs toLower_def char_of_def bit_0)

lemma Cap_consts_ids: "map snd Cap_consts = map int [0..<38]"
  by (simp add: Cap_consts_def Cap_defs upt_rec)

lemma Cap_String_known:
  assumes "0 \<le> c" "c \<le> 37" "c \<noteq> CAP_SYS_PACCT"
  shows "canonical_name c = Some (Cap_String c)"
proof -
  let ?tab = "map (\<lambda>(ident, v). (v, ident)) Cap_consts"
  have "nat c \<in> set [0..<38]" using assms by simp
  then have "int (nat c) \<in> int ` set [0..<38]" by (rule imageI)
  then have "c \<in> set (map snd Cap_consts)"
    using assms(1) by (simp only: Cap_consts_ids set_map) simp
  also have "map snd Cap_consts = map fst ?tab" by (simp add: case_prod_unfold comp_def)
  finally have "c \<in> fst ` set ?tab" by (simp only: set_map)
  then obtain ident where m: "map_of ?tab c = Some ident"
    by (meson map_of_eq_None_iff not_Some_eq)
  then have "(c, ident) \<in> set ?tab" by (rule map_of_SomeD)
  then have "(ident, c) \<in> set Cap_consts" by auto
  with Cap_consts_names assms(3) have "map toLower (drop 4 ident) = Cap_String c"
    by (auto simp add: list_all_iff)
  with m show ?thesis by (simp add: canonical_name_def)
qed

lemma canonical_name_outside: "c < 0 \<or> 37 < c \<Longrightarrow> canonical_name c = None"
  by (auto simp add: canonical_name_def Cap_consts_def Cap_defs)

text \<open>The accessors on a single id; \<open>Set\<close> does set the bit that \<open>Get\<close> reads.\<close>

lemma Set_caps_single: "Set_caps which [i] st = onNamed which (setBit i) st"
  by (simp add: Set_caps_def)

lemma Unset_caps_single: "Unset_caps which [i] st = onNamed which (clearBit i) st"
  by (simp add: Unset_caps_def)

lemma testBit_set: "0 \<le> i \<Longrightarrow> i \<le> 63 \<Longrightarrow> testBit i (setBit i w) = True"
  by (auto simp add: testBit_def setBit_def bit_simps)

lemma Get_after_Set:
  assumes "which \<in> {EFFECTIVE, PERMITTED, INHERITABLE, BOUNDING}" "0 \<le> i" "i \<le> 63"
  shows "Get_cap which i (Set_caps which [i] st) = True"
  using assms
  by (auto simp add: Set_caps_single Get_cap_def onNamed_def CapType_defs testBit_set)

section \<open>The claims\<close>

text \<open>
  C1. For every last-capability id \<open>L\<close> that \<open>getLastCap\<close> returns without error,
  \<open>init\<close> stores \<open>L\<close> and sets the upper-word mask to \<open>(1 << (L - 31)) - 1\<close> when
  \<open>L > 31\<close> and to 0 when \<open>L \<le> 31\<close>. The mask is a \<open>uint32\<close>: read as a number it is
  \<open>2 ^ (L - 31) - 1\<close> reduced modulo \<open>2 ^ 32\<close>, and exactly \<open>2 ^ (L - 31) - 1\<close> for
  \<open>L\<close> up to 63.
\<close>

theorem init_upper_mask:
  assumes "getLastCap file = Inr L"
  shows "CAP_LAST_CAP (init file g) = L
    \<and> capUpperMask (init file g) = (if 31 < L then 2 ^ nat (L - 31) - 1 else 0)
    \<and> unat (capUpperMask (init file g)) = (if 31 < L then (2 ^ nat (L - 31) - 1) mod 2 ^ 32 else 0)
    \<and> (31 < L \<and> L \<le> 63 \<longrightarrow> unat (capUpperMask (init file g)) = 2 ^ nat (L - 31) - 1)"
proof -
  have m: "capUpperMask (init file g) = (if 31 < L then 2 ^ nat (L - 31) - 1 else 0)"
    and l: "CAP_LAST_CAP (init file g) = L"
    by (simp_all add: init_success [OF assms])
  have u: "unat (capUpperMask (init file g)) = (if 31 < L then (2 ^ nat (L - 31) - 1) mod 2 ^ 32 else 0)"
    by (simp only: m unat_mask32 if_distrib [of unat] unat_0)
  have "unat (capUpperMask (init file g)) = 2 ^ nat (L - 31) - 1" if "31 < L" "L \<le> 63"
  proof -
    have "nat (L - 31) \<le> 32" using that by arith
    then have "(2::nat) ^ nat (L - 31) \<le> 2 ^ 32" by (rule power_increasing) simp
    then have "(2::nat) ^ nat (L - 31) - 1 < 2 ^ 32" by simp
    then show ?thesis using that(1) by (simp only: u if_True mod_less)
  qed
  with l m u show ?thesis by blast
qed

theorem init_upper_mask_witness:
  "getLastCap (Inr (''40'' @ [CHR 0x0A])) = Inr 40
   \<and> CAP_LAST_CAP (init (Inr (''40'' @ [CHR 0x0A])) declared_vars) = 40
   \<and> capUpperMask (init (Inr (''40'' @ [CHR 0x0A])) declared_vars) = 511
   \<and> unat (capUpperMask (init (Inr (''40'' @ [CHR 0x0A])) declared_vars)) = 511"
  using init_upper_mask [OF getLastCap_40, of declared_vars] getLastCap_40 by simp

text \<open>
  C2 as stated fails: a failed discovery leaves exactly the package variables that a
  successful discovery of 63 leaves, so nothing a caller can read tells the two apart.
\<close>

theorem failed_discovery_not_observable:
  "getLastCap (Inr ''abc'') = Inl ErrSyntax
   \<and> getLastCap (Inr ''63'') = Inr 63
   \<and> init (Inr ''abc'') declared_vars = init (Inr ''63'') declared_vars"
  by (simp add: getLastCap_abc getLastCap_63 init_63 init_failure_id [OF getLastCap_abc])

text \<open>
  C2, amended. When discovery fails, on a read error or on a parse error, \<open>init\<close> raises
  nothing and leaves the package variables as they were, that is at the compiled-in
  default; no flag records the failure, and the state is the one a successful discovery
  of 63 produces.
\<close>

theorem init_failure_silent:
  assumes "getLastCap file = Inl err"
  shows "init file g = g
    \<and> init file declared_vars = declared_vars
    \<and> init file declared_vars = init (Inr ''63'') declared_vars"
  by (simp add: init_failure_id [OF assms] init_63)

theorem init_failure_silent_witness:
  "getLastCap (Inr ''abc'') = Inl ErrSyntax
   \<and> getLastCap (Inl ErrReadFile) = Inl ErrReadFile
   \<and> init (Inr ''abc'') declared_vars = declared_vars
   \<and> init (Inl ErrReadFile) declared_vars = init (Inr ''63'') declared_vars"
proof -
  have r: "getLastCap (Inl ErrReadFile) = Inl ErrReadFile" by (simp add: getLastCap_def)
  from init_failure_silent [OF getLastCap_abc, of declared_vars]
    init_failure_silent [OF r, of declared_vars] getLastCap_abc r
  show ?thesis by blast
qed

text \<open>
  C3 as stated fails: the value \<open>CAP_LAST_CAP\<close> has after a failed discovery is not
  lower than 63.
\<close>

theorem fallback_not_below_63:
  "getLastCap (Inl ErrReadFile) = Inl ErrReadFile
   \<and> \<not> CAP_LAST_CAP (init (Inl ErrReadFile) declared_vars) < 63"
  by (simp add: getLastCap_def init_def declared_vars_def)

text \<open>
  C3, amended. The compiled-in fallback value of the last-capability id, the one in use
  when discovery fails, is exactly 63: every id from 0 to 63, all 64 capability bits,
  counts as valid.
\<close>

theorem fallback_is_63:
  assumes "getLastCap file = Inl err"
  shows "CAP_LAST_CAP (init file declared_vars) = 63
    \<and> {c. 0 \<le> c \<and> c \<le> CAP_LAST_CAP (init file declared_vars)} = {0..63}"
  by (auto simp add: init_failure_id [OF assms] declared_vars_def)

theorem fallback_is_63_witness:
  "getLastCap (Inl ErrReadFile) = Inl ErrReadFile
   \<and> CAP_LAST_CAP (init (Inl ErrReadFile) declared_vars) = 63"
proof -
  have r: "getLastCap (Inl ErrReadFile) = Inl ErrReadFile" by (simp add: getLastCap_def)
  from fallback_is_63 [OF r] r show ?thesis by simp
qed

text \<open>
  C4. \<open>Cap.String\<close> is a total function to strings, and returns \<open>unknown\<close> outside the
  table; but for \<open>CAP_SYS_PACCT\<close> (id 20) it returns \<open>sys_psacct\<close>, which is not
  the lowercase identifier \<open>sys_pacct\<close> of that capability.
\<close>

theorem Cap_String_SYS_PACCT:
  "Cap_String CAP_SYS_PACCT = ''sys_psacct''
   \<and> canonical_name CAP_SYS_PACCT = Some ''sys_pacct''
   \<and> canonical_name CAP_SYS_PACCT \<noteq> Some (Cap_String CAP_SYS_PACCT)"
  by (simp add: Cap_String_def canonical_name_def Cap_consts_def Cap_defs toLower_def
      char_of_def bit_0)

text \<open>
  C5 as stated fails: the reader accepts a text with a minus sign and returns a negative
  value.
\<close>

theorem getLastCap_negative:
  "getLastCap (Inr (''-1'' @ [CHR 0x0A])) = Inr (- 1) \<and> (- 1 :: Cap) < 0"
  using getLastCap_minus1 by simp

text \<open>
  C5, amended. For every text the reader accepts, the parsed value is an integer of the
  signed 64-bit range; it is non-negative whenever the text, once trimmed, does not
  begin with a minus sign.
\<close>

theorem getLastCap_value:
  assumes "getLastCap (Inr str) = Inr v"
  shows "- (2 ^ 63) \<le> v \<and> v < 2 ^ 63 \<and> (take 1 (TrimSpace str) \<noteq> ''-'' \<longrightarrow> 0 \<le> v)"
proof -
  from assms have a: "ParseInt (TrimSpace str) = Inr v"
    by (auto simp add: Atoi_def dest: getLastCap_Inr)
  have "take 1 (TrimSpace str) \<noteq> ''-'' \<longrightarrow> 0 \<le> v"
    using ParseInt_sign [OF a] by (cases "v < 0") simp_all
  with ParseInt_range [OF a] show ?thesis by blast
qed

theorem getLastCap_value_witness:
  "getLastCap (Inr (''40'' @ [CHR 0x0A])) = Inr 40
   \<and> take 1 (TrimSpace (''40'' @ [CHR 0x0A])) \<noteq> ''-''
   \<and> (0::Cap) \<le> 40 \<and> (40::Cap) < 2 ^ 63"
proof -
  have t: "take 1 (TrimSpace (''40'' @ [CHR 0x0A])) \<noteq> ''-''"
    by (simp add: TrimSpace_def TrimRight_def isSpace1_def isSpace2_def isSpace3_def)
  from getLastCap_value [OF getLastCap_40] t getLastCap_40 show ?thesis by simp
qed

text \<open>
  C6. The four base \<open>CapType\<close> values are pairwise distinct single bits; \<open>CAPS\<close> has
  exactly the bits of \<open>EFFECTIVE\<close>, \<open>PERMITTED\<close> and \<open>INHERITABLE\<close> and none of
  \<open>BOUNDING\<close>; \<open>BOUNDS\<close> is \<open>BOUNDING\<close>.
\<close>

theorem CapType_selectors:
  "distinct [EFFECTIVE, PERMITTED, INHERITABLE, BOUNDING]
   \<and> [EFFECTIVE, PERMITTED, INHERITABLE, BOUNDING] = [1, 2, 4, 8]
   \<and> (\<forall>n. bit CAPS n = (bit EFFECTIVE n \<or> bit PERMITTED n \<or> bit INHERITABLE n))
   \<and> CAPS = 7
   \<and> CAPS AND BOUNDING = 0
   \<and> BOUNDS = BOUNDING
   \<and> BOUNDS \<noteq> CAPS"
proof -
  have "\<forall>n. bit CAPS n = (bit EFFECTIVE n \<or> bit PERMITTED n \<or> bit INHERITABLE n)"
    by (simp add: CAPS_def bit_or_iff)
  moreover have "distinct [EFFECTIVE, PERMITTED, INHERITABLE, BOUNDING]"
    and "[EFFECTIVE, PERMITTED, INHERITABLE, BOUNDING] = [1, 2, 4, 8]"
    and "CAPS = 7" and "CAPS AND BOUNDING = 0" and "BOUNDS = BOUNDING" and "BOUNDS \<noteq> CAPS"
    by (simp_all add: CapType_defs)
  ultimately show ?thesis by blast
qed

text \<open>
  C7. For every base set \<open>s\<close> and every capability id \<open>i\<close> (0..63), \<open>Set(s, i)\<close>
  followed by \<open>Unset(s, i)\<close> leaves \<open>Get(s, i)\<close> false, whatever the state was.
\<close>

theorem Set_Unset_Get:
  assumes "which \<in> {EFFECTIVE, PERMITTED, INHERITABLE, BOUNDING}" "0 \<le> i" "i \<le> 63"
  shows "Get_cap which i (Unset_caps which [i] (Set_caps which [i] st)) = False"
  using assms(1)
  by (auto simp add: Set_caps_single Unset_caps_single Get_cap_def onNamed_def CapType_defs
      testBit_clear_set)

theorem Set_Unset_Get_witness:
  "EFFECTIVE \<in> {EFFECTIVE, PERMITTED, INHERITABLE, BOUNDING} \<and> (0::Cap) \<le> 40 \<and> (40::Cap) \<le> 63
   \<and> Get_cap EFFECTIVE 40
        (Unset_caps EFFECTIVE [40] (Set_caps EFFECTIVE [40]
          \<lparr>effective = \<lparr>low = 0, high = 0\<rparr>, permitted = \<lparr>low = 0, high = 0\<rparr>,
           inheritable = \<lparr>low = 0, high = 0\<rparr>, bounding = \<lparr>low = 0, high = 0\<rparr>\<rparr>)) = False"
  using Set_Unset_Get [of EFFECTIVE 40] by simp

text \<open>
  C8. Every id above 37 (\<open>CAP_AUDIT_READ\<close>) has the name \<open>unknown\<close>; the ids from 38
  to 63 among them are within the last capability when the kernel reports 63, so they
  are supported at run time and have no name.
\<close>

theorem Cap_String_above_37:
  assumes "CAP_AUDIT_READ < c"
  shows "Cap_String c = ''unknown''
    \<and> (c \<le> 63 \<longrightarrow> c \<le> CAP_LAST_CAP (init (Inr ''63'') declared_vars))"
proof -
  from assms have "37 < c" by (simp add: CAP_AUDIT_READ_def)
  then have "Cap_String c = ''unknown''" by (simp add: Cap_String_outside)
  moreover have "CAP_LAST_CAP (init (Inr ''63'') declared_vars) = 63"
    by (simp add: init_success [OF getLastCap_63])
  ultimately show ?thesis by simp
qed

theorem Cap_String_above_37_witness:
  "CAP_AUDIT_READ < 40 \<and> (40::Cap) \<le> 63 \<and> Cap_String 40 = ''unknown''
   \<and> 40 \<le> CAP_LAST_CAP (init (Inr ''63'') declared_vars)"
proof -
  have h: "CAP_AUDIT_READ < 40" by (simp add: CAP_AUDIT_READ_def)
  from Cap_String_above_37 [OF h] h show ?thesis by simp
qed

text \<open>
  C9. \<open>getLastCap\<close> trims the text before it parses: a number below \<open>2 ^ 63\<close> in
  decimal, with white space before and after it, in particular followed by a newline,
  is read as that number, where \<open>Atoi\<close> alone rejects the text with the newline.
\<close>

theorem getLastCap_trims:
  assumes "n < 2 ^ 63" "\<forall>c \<in> set ws1. isSpace1 c" "\<forall>c \<in> set ws2. isSpace1 c"
  shows "getLastCap (Inr (ws1 @ decimal n @ ws2)) = Inr (int n)
    \<and> getLastCap (Inr (decimal n @ [CHR 0x0A])) = Inr (int n)
    \<and> Atoi (decimal n @ [CHR 0x0A]) = Inl ErrSyntax"
proof -
  have "getLastCap (Inr ([] @ decimal n @ [CHR 0x0A])) = Inr (int n)"
    using assms(1) by (intro getLastCap_decimal) (simp_all add: isSpace1_def)
  then show ?thesis
    using getLastCap_decimal [OF assms] Atoi_untrimmed [OF assms(1)] by simp
qed

theorem getLastCap_trims_witness:
  "(40::nat) < 2 ^ 63 \<and> list_all isSpace1 ''  '' \<and> list_all isSpace1 [CHR 0x0A]
   \<and> getLastCap (Inr (''  40'' @ [CHR 0x0A])) = Inr 40
   \<and> getLastCap (Inr (''40'' @ [CHR 0x0A])) = Inr 40
   \<and> Atoi (''40'' @ [CHR 0x0A]) = Inl ErrSyntax"
proof -
  have n: "(40::nat) < 2 ^ 63" by simp
  have w1: "\<forall>c \<in> set ''  ''. isSpace1 c" and w2: "\<forall>c \<in> set [CHR 0x0A]. isSpace1 c"
    by (simp_all add: isSpace1_def)
  have d: "decimal 40 = ''40''" by (simp add: decimal.simps char_of_def bit_0)
  from getLastCap_trims [OF n w1 w2] n w1 w2 show ?thesis by (simp add: d)
qed

text \<open>
  C10. If discovery fails, \<open>init\<close> leaves both package variables at the values they
  are declared with: \<open>CAP_LAST_CAP\<close> is 63 and the upper-word mask has all 32 bits
  set, so masking an upper word with it changes nothing.
\<close>

theorem init_failure_defaults:
  assumes "getLastCap file = Inl err"
  shows "CAP_LAST_CAP (init file declared_vars) = 63
    \<and> capUpperMask (init file declared_vars) = 0xFFFFFFFF
    \<and> (\<forall>n < 32. bit (capUpperMask (init file declared_vars)) n)
    \<and> (\<forall>w. w AND capUpperMask (init file declared_vars) = w)"
proof -
  have m: "capUpperMask (init file declared_vars) = - 1"
    and l: "CAP_LAST_CAP (init file declared_vars) = 63"
    by (simp_all add: init_failure_id [OF assms] declared_vars_def)
  show ?thesis by (simp add: m l)
qed

theorem init_failure_defaults_witness:
  "getLastCap (Inr ''abc'') = Inl ErrSyntax
   \<and> CAP_LAST_CAP (init (Inr ''abc'') declared_vars) = 63
   \<and> capUpperMask (init (Inr ''abc'') declared_vars) = 0xFFFFFFFF
   \<and> bit (capUpperMask (init (Inr ''abc'') declared_vars)) 31
   \<and> 0x1FF AND capUpperMask (init (Inr ''abc'') declared_vars) = 0x1FF"
  using init_failure_defaults [OF getLastCap_abc] getLastCap_abc by simp

end
